theory Spec2Isabelle
  imports Complex_Main "HOL-Library.Multiset"
begin

section \<open>Values of the upstream payload\<close>

text \<open>
  The route dataset is parsed JSON, so a coordinate array is an arbitrary value. Numbers
  are modelled as exact reals: JSON carries neither NaN nor an infinite literal, and the
  data model takes coordinates to be finite. Rounding of the IEEE doubles is not
  modelled: the geometric primitives below are the exact formulas, and where the route
  distance depends on what the double evaluation returns (a number or NaN), that value
  is a parameter.
\<close>

datatype jsval =
    JNum real
  | JStr string
  | JBool bool
  | JNull
  | JUndefined
  | JObj
  | JArr "jsval list"

text \<open>
  The builtin \<open>Number(v)\<close>; \<open>None\<close> is NaN. On numbers, booleans, null and
  undefined it is fixed by the language. On strings, plain objects and arrays it goes
  through a string parse, which is taken as the parameter \<open>coerce\<close>.
\<close>

definition Number :: "(jsval \<Rightarrow> real option) \<Rightarrow> jsval \<Rightarrow> real option" where
  "Number coerce v =
     (case v of
        JNum r \<Rightarrow> Some r
      | JBool b \<Rightarrow> Some (if b then 1 else 0)
      | JNull \<Rightarrow> Some 0
      | JUndefined \<Rightarrow> None
      | _ \<Rightarrow> coerce v)"

text \<open>A position \<open>[x, y]\<close> produced by the sanitizer: longitude first.\<close>

type_synonym position = "real \<times> real"

text \<open>The cleaned coordinates written back as the array value the geometry library receives.\<close>

definition positionToJs :: "position \<Rightarrow> jsval" where
  "positionToJs p = JArr [JNum (fst p), JNum (snd p)]"

definition coordsToJs :: "position list list \<Rightarrow> jsval" where
  "coordsToJs rings = JArr (map (\<lambda>ring. JArr (map positionToJs ring)) rings)"

section \<open>GeoService.ensureNumericCoordinates\<close>

text \<open>
  The inner loop over the entries of one ring: an entry that is not an array, has fewer
  than two elements, or whose first two elements do not convert to numbers is skipped.
\<close>

fun cleanPoints :: "(jsval \<Rightarrow> real option) \<Rightarrow> jsval list \<Rightarrow> position list" where
  "cleanPoints coerce [] = []"
| "cleanPoints coerce (JArr es # rest) =
     (if length es < 2 then cleanPoints coerce rest
      else (case Number coerce (es ! 0) of
              None \<Rightarrow> cleanPoints coerce rest
            | Some x \<Rightarrow>
                (case Number coerce (es ! 1) of
                   None \<Rightarrow> cleanPoints coerce rest
                 | Some y \<Rightarrow> (x, y) # cleanPoints coerce rest)))"
| "cleanPoints coerce (_ # rest) = cleanPoints coerce rest"

text \<open>
  The block after the inner loop: a ring of at least three cleaned points is closed by
  repeating its first point when first and last differ, and is kept when it then has at
  least four points.
\<close>

definition closeRing :: "position list \<Rightarrow> position list option" where
  "closeRing cleanRing =
     (if length cleanRing \<ge> 3 then
        (let first = hd cleanRing;
             lst = last cleanRing;
             closed = (if fst first \<noteq> fst lst \<or> snd first \<noteq> snd lst
                       then cleanRing @ [(fst first, snd first)] else cleanRing)
         in if length closed \<ge> 4 then Some closed else None)
      else None)"

text \<open>The outer loop: \<open>result\<close> after all candidate rings were visited.\<close>

fun sanitizeRings :: "(jsval \<Rightarrow> real option) \<Rightarrow> jsval list \<Rightarrow> position list list" where
  "sanitizeRings coerce [] = []"
| "sanitizeRings coerce (JArr pts # rest) =
     (case closeRing (cleanPoints coerce pts) of
        None \<Rightarrow> sanitizeRings coerce rest
      | Some ring \<Rightarrow> ring # sanitizeRings coerce rest)"
| "sanitizeRings coerce (_ # rest) = sanitizeRings coerce rest"

definition ensureNumericCoordinates ::
  "(jsval \<Rightarrow> real option) \<Rightarrow> jsval \<Rightarrow> position list list option" where
  "ensureNumericCoordinates coerce coordinates =
     (case coordinates of
        JArr rings \<Rightarrow>
          (let result = sanitizeRings coerce rings
           in if length result > 0 then Some result else None)
      | _ \<Rightarrow> None)"

section \<open>Geometric primitives\<close>

definition toRadians :: "real \<Rightarrow> real" where
  "toRadians degrees = degrees * pi / 180"

text \<open>The builtin \<open>Math.atan2(y, x)\<close> on finite arguments.\<close>

definition atan2 :: "real \<Rightarrow> real \<Rightarrow> real" where
  "atan2 y x =
     (if x > 0 then arctan (y / x)
      else if x < 0 then (if y \<ge> 0 then arctan (y / x) + pi else arctan (y / x) - pi)
      else if y > 0 then pi / 2
      else if y < 0 then - (pi / 2)
      else 0)"

definition haversineDistance :: "position \<Rightarrow> position \<Rightarrow> real" where
  "haversineDistance point1 point2 =
     (let lon1 = fst point1; lat1 = snd point1;
          lon2 = fst point2; lat2 = snd point2;
          R = 6371;
          dLat = toRadians (lat2 - lat1);
          dLon = toRadians (lon2 - lon1);
          a = sin (dLat / 2) * sin (dLat / 2) +
              cos (toRadians lat1) * cos (toRadians lat2) *
              sin (dLon / 2) * sin (dLon / 2);
          c = 2 * atan2 (sqrt a) (sqrt (1 - a))
      in R * c)"

definition pointToLineDistance :: "position \<Rightarrow> position \<Rightarrow> position \<Rightarrow> real" where
  "pointToLineDistance pt lineStart lineEnd =
     (let x = fst pt; y = snd pt;
          x1 = fst lineStart; y1 = snd lineStart;
          x2 = fst lineEnd; y2 = snd lineEnd
      in if x1 = x2 \<and> y1 = y2 then haversineDistance (x, y) (x1, y1)
         else
           (let A = x - x1; B = y - y1; C = x2 - x1; D = y2 - y1;
                dot = A * C + B * D;
                lenSq = C * C + D * D;
                param = (if lenSq \<noteq> 0 then dot / lenSq else - 1)
            in if param < 0 then haversineDistance (x, y) (x1, y1)
               else if param > 1 then haversineDistance (x, y) (x2, y2)
               else haversineDistance (x, y) (x1 + param * C, y1 + param * D)))"

section \<open>Distances with the sentinel\<close>

text \<open>
  A running minimum starts at \<open>Infinity\<close> and is replaced by a finite number of
  kilometres; \<open>d < m\<close> is the comparison \<open>distance < minDistance\<close> of the source.
\<close>

datatype distance = Finite real | Infinity

instantiation distance :: linorder
begin

fun less_eq_distance :: "distance \<Rightarrow> distance \<Rightarrow> bool" where
  "less_eq_distance (Finite a) (Finite b) = (a \<le> b)"
| "less_eq_distance Infinity (Finite b) = False"
| "less_eq_distance d Infinity = True"

definition less_distance :: "distance \<Rightarrow> distance \<Rightarrow> bool" where
  "less_distance d e = (d \<le> e \<and> \<not> e \<le> d)"

instance
proof
  fix x y z :: distance
  show "(x < y) = (x \<le> y \<and> \<not> y \<le> x)"
    by (simp add: less_distance_def)
  show "x \<le> x"
    by (cases x) simp_all
  show "x \<le> y \<Longrightarrow> y \<le> z \<Longrightarrow> x \<le> z"
    by (cases x; cases y; cases z) simp_all
  show "x \<le> y \<Longrightarrow> y \<le> x \<Longrightarrow> x = y"
    by (cases x; cases y) simp_all
  show "x \<le> y \<or> y \<le> x"
    by (cases x; cases y) auto
qed

end

section \<open>The dataset\<close>

text \<open>
  The records follow \<open>models/types.ts\<close>. A field the services read through a guard
  (\<open>region?.geometry?.coordinates\<close>) or inside a \<open>try\<close> is optional, since the
  payload is untrusted: \<open>None\<close> is a missing field. A point identifier is a number or
  a string (the key type of the viewport's \<open>Map\<close>) or is missing.
\<close>

datatype ident = IdNum real | IdStr string | IdMissing

record Geometry =
  gtype :: string
  coordinates :: jsval

record Region =
  geometry :: "Geometry option"
  center :: "real list"
  radius :: real

record Point =
  pointId :: ident
  pointCreatedAt :: string
  region :: "Region option"

record PointOnRoute =
  point :: "Point option"

record Route =
  routeId :: ident
  routeCreatedAt :: string
  pointsOnRoutes :: "PointOnRoute list option"

datatype error = TypeError | DatasetUnavailable

section \<open>The geometry library\<close>

text \<open>
  The functions of the geometry library the services call, as parameters. \<open>None\<close> is
  a thrown exception. \<open>polygon\<close> builds a polygon from coordinates,
  \<open>booleanPointInPolygon\<close> and \<open>booleanIntersects\<close> are the two tests, and
  \<open>bboxPolygon\<close> builds the rectangle of a bounding box.
\<close>

record 'poly turf =
  polygon :: "jsval \<Rightarrow> 'poly option"
  booleanPointInPolygon :: "position \<Rightarrow> 'poly \<Rightarrow> bool option"
  booleanIntersects :: "'poly \<Rightarrow> 'poly \<Rightarrow> bool option"
  bboxPolygon :: "real \<times> real \<times> real \<times> real \<Rightarrow> 'poly"

section \<open>GeoService.calculateMinimumDistanceManually\<close>

text \<open>
  The engine evaluates \<open>pointToLineDistance\<close> in double precision, and the rounding of
  that arithmetic is not modelled. The number a call returns is therefore the parameter
  \<open>segDist\<close>: a finite number, or \<open>None\<close> for NaN, which arises when the
  haversine term rounds above 1 and \<open>Math.sqrt(1 - a)\<close> has a negative argument.
  The result is \<open>6371 * 2 * Math.atan2(..)\<close>, so it is never infinite. In exact
  arithmetic the number is \<open>pointToLineDistance\<close> above.
\<close>

type_synonym segmentDistance = "position \<Rightarrow> position \<Rightarrow> position \<Rightarrow> real option"

text \<open>
  The loop \<open>for i = 0 .. ring.length - 2\<close> over the segments of one ring. The
  comparison \<open>distance < minDistance\<close> is false when the distance is NaN.
\<close>

fun segmentLoop :: "segmentDistance \<Rightarrow> position \<Rightarrow> position list \<Rightarrow> distance \<Rightarrow> distance" where
  "segmentLoop segDist userCoords (p1 # p2 # rest) minDistance =
     (case segDist userCoords p1 p2 of
        None \<Rightarrow> segmentLoop segDist userCoords (p2 # rest) minDistance
      | Some d \<Rightarrow>
          segmentLoop segDist userCoords (p2 # rest)
            (if Finite d < minDistance then Finite d else minDistance))"
| "segmentLoop segDist userCoords ring minDistance = minDistance"

fun ringLoop :: "segmentDistance \<Rightarrow> position \<Rightarrow> position list list \<Rightarrow> distance \<Rightarrow> distance" where
  "ringLoop segDist userCoords [] minDistance = minDistance"
| "ringLoop segDist userCoords (ring # rest) minDistance =
     ringLoop segDist userCoords rest (segmentLoop segDist userCoords ring minDistance)"

definition calculateMinimumDistanceManually ::
  "segmentDistance \<Rightarrow> position \<Rightarrow> position list list \<Rightarrow> distance" where
  "calculateMinimumDistanceManually segDist userCoords polygonCoordinates =
     ringLoop segDist userCoords polygonCoordinates Infinity"

section \<open>GeoService.calculateDistanceToRoute\<close>

text \<open>
  The reads \<open>pointOnRoute.point\<close>, \<open>point.region\<close> and the guard
  \<open>!region?.geometry?.coordinates\<close>: \<open>None\<close> when the iteration is left by
  \<open>continue\<close>, or by the \<open>TypeError\<close> of a missing point that the outer
  \<open>catch\<close> absorbs.
\<close>

fun truthy :: "jsval \<Rightarrow> bool" where
  "truthy (JNum r) = (r \<noteq> 0)"
| "truthy (JStr s) = (s \<noteq> [])"
| "truthy (JBool b) = b"
| "truthy JNull = False"
| "truthy JUndefined = False"
| "truthy JObj = True"
| "truthy (JArr vs) = True"

definition regionCoordinates :: "PointOnRoute \<Rightarrow> jsval option" where
  "regionCoordinates pointOnRoute =
     (case point pointOnRoute of
        None \<Rightarrow> None
      | Some pt \<Rightarrow>
          (case region pt of
             None \<Rightarrow> None
           | Some reg \<Rightarrow>
               (case geometry reg of
                  None \<Rightarrow> None
                | Some g \<Rightarrow> if truthy (coordinates g) then Some (coordinates g) else None)))"

text \<open>
  The loop over \<open>route.pointsOnRoutes\<close> with its early \<open>return 0\<close>. An exception of
  \<open>polygon\<close> or of the containment test is absorbed by the inner \<open>catch\<close>.
\<close>

fun distanceLoop ::
  "'poly turf \<Rightarrow> segmentDistance \<Rightarrow> (jsval \<Rightarrow> real option) \<Rightarrow> position \<Rightarrow>
   PointOnRoute list \<Rightarrow> distance \<Rightarrow> distance" where
  "distanceLoop T segDist coerce userPoint [] minDistance = minDistance"
| "distanceLoop T segDist coerce userPoint (pointOnRoute # rest) minDistance =
     (case regionCoordinates pointOnRoute of
        None \<Rightarrow> distanceLoop T segDist coerce userPoint rest minDistance
      | Some coords \<Rightarrow>
          (case ensureNumericCoordinates coerce coords of
             None \<Rightarrow> distanceLoop T segDist coerce userPoint rest minDistance
           | Some cleanCoordinates \<Rightarrow>
               (case polygon T (coordsToJs cleanCoordinates) of
                  None \<Rightarrow> distanceLoop T segDist coerce userPoint rest minDistance
                | Some poly \<Rightarrow>
                    (case booleanPointInPolygon T userPoint poly of
                       None \<Rightarrow> distanceLoop T segDist coerce userPoint rest minDistance
                     | Some True \<Rightarrow> Finite 0
                     | Some False \<Rightarrow>
                         (let d = calculateMinimumDistanceManually segDist userPoint
                                    cleanCoordinates
                          in distanceLoop T segDist coerce userPoint rest
                               (if d < minDistance then d else minDistance))))))"

text \<open>Iterating a missing \<open>pointsOnRoutes\<close> throws outside every \<open>try\<close> of the method.\<close>

definition calculateDistanceToRoute ::
  "'poly turf \<Rightarrow> segmentDistance \<Rightarrow> (jsval \<Rightarrow> real option) \<Rightarrow> Route \<Rightarrow> position \<Rightarrow>
   error + distance" where
  "calculateDistanceToRoute T segDist coerce route userPoint =
     (case pointsOnRoutes route of
        None \<Rightarrow> Inl TypeError
      | Some ps \<Rightarrow> Inr (distanceLoop T segDist coerce userPoint ps Infinity))"

section \<open>GeoService.findNearestRoutes\<close>

text \<open>
  The comparator \<open>(a, b) => a.distance - b.distance\<close>, by the sign of its result.
  \<open>Infinity - Infinity\<close> is NaN, which \<open>Array.prototype.sort\<close> reads as \<open>+0\<close>.
\<close>

fun comparefn :: "'a \<times> distance \<Rightarrow> 'a \<times> distance \<Rightarrow> int" where
  "comparefn (ra, Finite a) (rb, Finite b) = (if a < b then - 1 else if a > b then 1 else 0)"
| "comparefn (ra, Finite a) (rb, Infinity) = - 1"
| "comparefn (ra, Infinity) (rb, Finite b) = 1"
| "comparefn (ra, Infinity) (rb, Infinity) = 0"

text \<open>
  \<open>Array.prototype.sort\<close> is a stable sort by the comparator; it is modelled by
  insertion from the right, which keeps the entries the comparator does not separate in
  their order.
\<close>

fun insertBy :: "('a \<Rightarrow> 'a \<Rightarrow> int) \<Rightarrow> 'a \<Rightarrow> 'a list \<Rightarrow> 'a list" where
  "insertBy cmp x [] = [x]"
| "insertBy cmp x (y # ys) = (if cmp x y \<le> 0 then x # y # ys else y # insertBy cmp x ys)"

definition sortBy :: "('a \<Rightarrow> 'a \<Rightarrow> int) \<Rightarrow> 'a list \<Rightarrow> 'a list" where
  "sortBy cmp xs = foldr (insertBy cmp) xs []"

text \<open>\<open>xs.slice(0, end)\<close> for an integer \<open>end\<close>: a negative one counts from the end.\<close>

definition slice0 :: "int \<Rightarrow> 'a list \<Rightarrow> 'a list" where
  "slice0 end xs =
     (let len = int (length xs);
          final = (if end < 0 then max (len + end) 0 else min end len)
      in take (nat final) xs)"

text \<open>The distance the \<open>map\<close> callback pairs with a route.\<close>

definition routeDistance ::
  "'poly turf \<Rightarrow> segmentDistance \<Rightarrow> (jsval \<Rightarrow> real option) \<Rightarrow> position \<Rightarrow> Route \<Rightarrow>
   distance" where
  "routeDistance T segDist coerce userPoint route =
     (case calculateDistanceToRoute T segDist coerce route userPoint of
        Inr d \<Rightarrow> d
      | Inl e \<Rightarrow> Infinity)"

text \<open>The method on the dataset that \<open>getRoutes\<close> returned.\<close>

definition nearestRoutes ::
  "'poly turf \<Rightarrow> segmentDistance \<Rightarrow> (jsval \<Rightarrow> real option) \<Rightarrow> Route list \<Rightarrow>
   real \<Rightarrow> real \<Rightarrow> int \<Rightarrow> Route list" where
  "nearestRoutes T segDist coerce routes lng lat cnt =
     (let userPoint = (lng, lat);
          routesWithDistance =
            map (\<lambda>route. (route, routeDistance T segDist coerce userPoint route)) routes;
          sorted = sortBy comparefn routesWithDistance
      in map fst (slice0 cnt sorted))"

section \<open>GeoService.findPointsInViewport\<close>

fun isNumber :: "jsval \<Rightarrow> bool" where
  "isNumber (JNum r) = True"
| "isNumber v = False"

fun validPoint :: "jsval \<Rightarrow> bool" where
  "validPoint (JArr es) = (length es \<ge> 2 \<and> isNumber (es ! 0) \<and> isNumber (es ! 1))"
| "validPoint v = False"

fun arePointsEqual :: "jsval \<Rightarrow> jsval \<Rightarrow> bool" where
  "arePointsEqual (JArr p1) (JArr p2) = (p1 ! 0 = p2 ! 0 \<and> p1 ! 1 = p2 ! 1)"
| "arePointsEqual v w = False"

fun validRing :: "jsval \<Rightarrow> bool" where
  "validRing (JArr pts) =
     (length pts \<ge> 4 \<and> list_all validPoint pts \<and> arePointsEqual (hd pts) (last pts))"
| "validRing v = False"

fun isValidPolygonCoordinates :: "jsval \<Rightarrow> bool" where
  "isValidPolygonCoordinates (JArr rings) = (length rings \<noteq> 0 \<and> list_all validRing rings)"
| "isValidPolygonCoordinates v = False"

definition isPointInViewport :: "'poly turf \<Rightarrow> Point \<Rightarrow> 'poly \<Rightarrow> bool" where
  "isPointInViewport T pt bboxPoly =
     (case region pt of
        None \<Rightarrow> False
      | Some reg \<Rightarrow>
          (case geometry reg of
             None \<Rightarrow> False
           | Some g \<Rightarrow>
               if gtype g = ''Polygon'' \<and> isValidPolygonCoordinates (coordinates g) then
                 (case polygon T (coordinates g) of
                    None \<Rightarrow> False
                  | Some poly \<Rightarrow>
                      (case booleanIntersects T poly bboxPoly of
                         None \<Rightarrow> False
                       | Some b \<Rightarrow> b))
               else False))"

text \<open>Truthiness of an identifier, as \<open>if (point.id)\<close> reads it.\<close>

fun truthyId :: "ident \<Rightarrow> bool" where
  "truthyId (IdNum r) = (r \<noteq> 0)"
| "truthyId (IdStr s) = (s \<noteq> [])"
| "truthyId IdMissing = False"

text \<open>
  The \<open>Map\<close> of unique points: its entries in insertion order. \<open>set\<close> on a key
  already present replaces the value in place.
\<close>

definition mapHas :: "'k \<Rightarrow> ('k \<times> 'v) list \<Rightarrow> bool" where
  "mapHas k m = (k \<in> set (map fst m))"

fun mapSet :: "'k \<Rightarrow> 'v \<Rightarrow> ('k \<times> 'v) list \<Rightarrow> ('k \<times> 'v) list" where
  "mapSet k v [] = [(k, v)]"
| "mapSet k v ((k', v') # m) = (if k = k' then (k, v) # m else (k', v') # mapSet k v m)"

definition mapValues :: "('k \<times> 'v) list \<Rightarrow> 'v list" where
  "mapValues m = map snd m"

text \<open>
  The body of the inner \<open>forEach\<close> callback. A missing point throws inside the
  \<open>try\<close> and leaves the map as it is.
\<close>

definition visitPoint ::
  "'poly turf \<Rightarrow> 'poly \<Rightarrow> PointOnRoute \<Rightarrow> (ident \<times> Point) list \<Rightarrow> (ident \<times> Point) list" where
  "visitPoint T bboxPoly pointOnRoute uniquePointsMap =
     (case point pointOnRoute of
        None \<Rightarrow> uniquePointsMap
      | Some pt \<Rightarrow>
          if truthyId (pointId pt) \<and> mapHas (pointId pt) uniquePointsMap then uniquePointsMap
          else if isPointInViewport T pt bboxPoly then
            (if truthyId (pointId pt) then mapSet (pointId pt) pt uniquePointsMap
             else uniquePointsMap)
          else uniquePointsMap)"

fun pointsLoop ::
  "'poly turf \<Rightarrow> 'poly \<Rightarrow> PointOnRoute list \<Rightarrow> (ident \<times> Point) list \<Rightarrow> (ident \<times> Point) list" where
  "pointsLoop T bboxPoly [] uniquePointsMap = uniquePointsMap"
| "pointsLoop T bboxPoly (pointOnRoute # rest) uniquePointsMap =
     pointsLoop T bboxPoly rest (visitPoint T bboxPoly pointOnRoute uniquePointsMap)"

text \<open>
  The outer \<open>forEach\<close>: a route without \<open>pointsOnRoutes\<close> throws outside the inner
  \<open>try\<close>, and the method rethrows.
\<close>

fun routesLoop ::
  "'poly turf \<Rightarrow> 'poly \<Rightarrow> Route list \<Rightarrow> (ident \<times> Point) list \<Rightarrow> error + (ident \<times> Point) list" where
  "routesLoop T bboxPoly [] uniquePointsMap = Inr uniquePointsMap"
| "routesLoop T bboxPoly (route # rest) uniquePointsMap =
     (case pointsOnRoutes route of
        None \<Rightarrow> Inl TypeError
      | Some ps \<Rightarrow> routesLoop T bboxPoly rest (pointsLoop T bboxPoly ps uniquePointsMap))"

text \<open>The method on the dataset that \<open>getRoutes\<close> returned.\<close>

definition pointsInViewport ::
  "'poly turf \<Rightarrow> Route list \<Rightarrow> real \<Rightarrow> real \<Rightarrow> real \<Rightarrow> real \<Rightarrow> error + Point list" where
  "pointsInViewport T routes lng1 lat1 lng2 lat2 =
     (let bbox = (min lng1 lng2, min lat1 lat2, max lng1 lng2, max lat1 lat2);
          bboxPoly = bboxPolygon T bbox
      in case routesLoop T bboxPoly routes [] of
           Inl e \<Rightarrow> Inl e
         | Inr uniquePointsMap \<Rightarrow> Inr (mapValues uniquePointsMap))"

section \<open>DataService.getRoutes\<close>

text \<open>
  The singleton's fields, and the upstream endpoint: the answer \<open>axios.get\<close> gives
  when it is called (\<open>None\<close>: the request fails) and the number of requests made so
  far. Times are milliseconds, as \<open>Date.now()\<close> returns them.
\<close>

record DataService =
  cachedData :: "Route list option"
  lastFetchTime :: int

record Upstream =
  response :: "Route list option"
  requests :: nat

definition CACHE_TTL :: int where
  "CACHE_TTL = 1000 * 60 * 10"

definition newDataService :: DataService where
  "newDataService = \<lparr>cachedData = None, lastFetchTime = 0\<rparr>"

definition getRoutes ::
  "int \<Rightarrow> DataService \<times> Upstream \<Rightarrow> (error + Route list) \<times> (DataService \<times> Upstream)" where
  "getRoutes currentTime st =
     (let this = fst st; net = snd st
      in if cachedData this \<noteq> None \<and> currentTime - lastFetchTime this < CACHE_TTL
         then (Inr (the (cachedData this)), (this, net))
         else
           (let net' = net\<lparr>requests := requests net + 1\<rparr>
            in case response net of
                 Some data \<Rightarrow>
                   (Inr data, (this\<lparr>cachedData := Some data, lastFetchTime := currentTime\<rparr>, net'))
               | None \<Rightarrow>
                   (case cachedData this of
                      Some cached \<Rightarrow> (Inr cached, (this, net'))
                    | None \<Rightarrow> (Inl DatasetUnavailable, (this, net')))))"

text \<open>
  The two public methods: the dataset comes from \<open>getRoutes\<close>, whose failure is
  rethrown; the parameter \<open>count\<close> (here \<open>cnt\<close>) defaults to 1.
\<close>

definition findNearestRoutes ::
  "'poly turf \<Rightarrow> segmentDistance \<Rightarrow> (jsval \<Rightarrow> real option) \<Rightarrow> int \<Rightarrow>
   DataService \<times> Upstream \<Rightarrow> real \<Rightarrow> real \<Rightarrow> int option \<Rightarrow>
   (error + Route list) \<times> (DataService \<times> Upstream)" where
  "findNearestRoutes T segDist coerce currentTime st lng lat cnt =
     (case getRoutes currentTime st of
        (Inl e, st') \<Rightarrow> (Inl e, st')
      | (Inr routes, st') \<Rightarrow>
          (Inr (nearestRoutes T segDist coerce routes lng lat
                  (case cnt of None \<Rightarrow> 1 | Some k \<Rightarrow> k)), st'))"

definition findPointsInViewport ::
  "'poly turf \<Rightarrow> int \<Rightarrow> DataService \<times> Upstream \<Rightarrow>
   real \<Rightarrow> real \<Rightarrow> real \<Rightarrow> real \<Rightarrow> (error + Point list) \<times> (DataService \<times> Upstream)" where
  "findPointsInViewport T currentTime st lng1 lat1 lng2 lat2 =
     (case getRoutes currentTime st of
        (Inl e, st') \<Rightarrow> (Inl e, st')
      | (Inr routes, st') \<Rightarrow> (pointsInViewport T routes lng1 lat1 lng2 lat2, st'))"

section \<open>Notions the properties are stated with\<close>

text \<open>
  The distances from the query point to the segments of a ring list, as the engine
  evaluates them: segment \<open>(ring[i], ring[i + 1])\<close> for every index of every ring.
\<close>

definition edgeDistances :: "segmentDistance \<Rightarrow> position \<Rightarrow> position list list \<Rightarrow> real option list" where
  "edgeDistances segDist userCoords rings =
     concat (map (\<lambda>ring. map (\<lambda>(p1, p2). segDist userCoords p1 p2) (zip ring (tl ring))) rings)"

text \<open>The entries of such a list that are numbers.\<close>

definition numbers :: "real option list \<Rightarrow> distance list" where
  "numbers ds = concat (map (\<lambda>d. case d of None \<Rightarrow> [] | Some km \<Rightarrow> [Finite km]) ds)"

text \<open>
  A region is usable when its coordinates are present, the sanitizer returns rings for
  them, the polygon is built and the containment test answers; the value is the
  sanitized rings with the answer of the test.
\<close>

definition usableRegion ::
  "'poly turf \<Rightarrow> (jsval \<Rightarrow> real option) \<Rightarrow> position \<Rightarrow> PointOnRoute \<Rightarrow>
   (position list list \<times> bool) option" where
  "usableRegion T coerce userPoint pointOnRoute =
     (case regionCoordinates pointOnRoute of
        None \<Rightarrow> None
      | Some coords \<Rightarrow>
          (case ensureNumericCoordinates coerce coords of
             None \<Rightarrow> None
           | Some clean \<Rightarrow>
               (case polygon T (coordsToJs clean) of
                  None \<Rightarrow> None
                | Some poly \<Rightarrow>
                    (case booleanPointInPolygon T userPoint poly of
                       None \<Rightarrow> None
                     | Some inside \<Rightarrow> Some (clean, inside)))))"

definition containing ::
  "'poly turf \<Rightarrow> (jsval \<Rightarrow> real option) \<Rightarrow> position \<Rightarrow> PointOnRoute \<Rightarrow> bool" where
  "containing T coerce userPoint pointOnRoute =
     (case usableRegion T coerce userPoint pointOnRoute of
        Some (clean, inside) \<Rightarrow> inside
      | None \<Rightarrow> False)"

text \<open>The segment distances of the usable regions of a route that do not contain the point.\<close>

definition routeEdgeDistances ::
  "'poly turf \<Rightarrow> segmentDistance \<Rightarrow> (jsval \<Rightarrow> real option) \<Rightarrow> position \<Rightarrow>
   PointOnRoute list \<Rightarrow> real option list" where
  "routeEdgeDistances T segDist coerce userPoint ps =
     concat (map (\<lambda>pointOnRoute.
                    case usableRegion T coerce userPoint pointOnRoute of
                      Some (clean, False) \<Rightarrow> edgeDistances segDist userPoint clean
                    | _ \<Rightarrow> []) ps)"


text \<open>The invariant of the viewport's map: keys are distinct, truthy, and the identifier of their point.\<close>

definition uniqueKeys :: "(ident \<times> Point) list \<Rightarrow> bool" where
  "uniqueKeys m = (distinct (map fst m) \<and> list_all (\<lambda>(k, v). pointId v = k \<and> truthyId k) m)"

section \<open>Concrete inputs\<close>

text \<open>A payload in which no string, object or array converts to a number.\<close>

definition numericOnly :: "jsval \<Rightarrow> real option" where
  "numericOnly v = None"

text \<open>
  A geometry library that is exact on axis-aligned rectangles: a polygon is the bounding
  box \<open>(west, south, east, north)\<close> of its outer ring.
\<close>

definition boxOf :: "jsval \<Rightarrow> (real \<times> real \<times> real \<times> real) option" where
  "boxOf coords =
     (case coords of
        JArr (JArr pts # holes) \<Rightarrow>
          (case cleanPoints numericOnly pts of
             [] \<Rightarrow> None
           | p # ps \<Rightarrow>
               Some (fold min (map fst ps) (fst p), fold min (map snd ps) (snd p),
                     fold max (map fst ps) (fst p), fold max (map snd ps) (snd p)))
      | _ \<Rightarrow> None)"

fun inBox :: "position \<Rightarrow> real \<times> real \<times> real \<times> real \<Rightarrow> bool" where
  "inBox (x, y) (w, s, e, n) = (w \<le> x \<and> x \<le> e \<and> s \<le> y \<and> y \<le> n)"

fun boxesMeet :: "real \<times> real \<times> real \<times> real \<Rightarrow> real \<times> real \<times> real \<times> real \<Rightarrow> bool" where
  "boxesMeet (w, s, e, n) (w', s', e', n') = (w \<le> e' \<and> w' \<le> e \<and> s \<le> n' \<and> s' \<le> n)"

definition boxTurf :: "(real \<times> real \<times> real \<times> real) turf" where
  "boxTurf =
     \<lparr>polygon = boxOf,
      booleanPointInPolygon = (\<lambda>p b. Some (inBox p b)),
      booleanIntersects = (\<lambda>a b. Some (boxesMeet a b)),
      bboxPolygon = (\<lambda>b. b)\<rparr>"

text \<open>The unit square \<open>[[0,0],[0,1],[1,1],[1,0],[0,0]]\<close>, and the polygon of this one ring.\<close>

definition squareRing :: jsval where
  "squareRing =
     JArr [JArr [JNum 0, JNum 0], JArr [JNum 0, JNum 1], JArr [JNum 1, JNum 1],
           JArr [JNum 1, JNum 0], JArr [JNum 0, JNum 0]]"

definition unitSquare :: jsval where
  "unitSquare = JArr [squareRing]"

definition pointOf :: "real \<Rightarrow> jsval \<Rightarrow> Point" where
  "pointOf i coords =
     \<lparr>pointId = IdNum i, pointCreatedAt = [],
      region = Some \<lparr>geometry = Some \<lparr>gtype = ''Polygon'', coordinates = coords\<rparr>,
                     center = [], radius = 0\<rparr>\<rparr>"

definition routeOf :: "real \<Rightarrow> Point list \<Rightarrow> Route" where
  "routeOf i pts =
     \<lparr>routeId = IdNum i, routeCreatedAt = [],
      pointsOnRoutes = Some (map (\<lambda>pt. \<lparr>point = Some pt\<rparr>) pts)\<rparr>"

definition brokenRoute :: Route where
  "brokenRoute = \<lparr>routeId = IdNum 9, routeCreatedAt = [], pointsOnRoutes = None\<rparr>"

text \<open>The engine that computes every segment distance exactly.\<close>

definition exactDistance :: segmentDistance where
  "exactDistance userCoords p1 p2 = Some (pointToLineDistance userCoords p1 p2)"


section \<open>Lemmas on the sanitizer\<close>






lemma cleanPoints_positions: "cleanPoints coerce (map positionToJs r) = r"
  by (induction r) (simp_all add: positionToJs_def Number_def)

lemma closeRing_closed: "length r \<ge> 4 \<Longrightarrow> hd r = last r \<Longrightarrow> closeRing r = Some r"
  by (simp add: closeRing_def)

lemma sanitizeRings_valid:
  "\<forall>r \<in> set rs. length r \<ge> 4 \<and> hd r = last r \<Longrightarrow>
   sanitizeRings coerce (map (\<lambda>ring. JArr (map positionToJs ring)) rs) = rs"
  by (induction rs) (simp_all add: cleanPoints_positions closeRing_closed)

section \<open>Lemmas on the haversine formula\<close>

lemma sin_half_sq_swap:
  "sin (toRadians (u - v) / 2) * sin (toRadians (u - v) / 2) =
   sin (toRadians (v - u) / 2) * sin (toRadians (v - u) / 2)"
proof -
  have "toRadians (u - v) / 2 = - (toRadians (v - u) / 2)"
    by (simp add: toRadians_def field_simps)
  then show ?thesis
    by (metis sin_minus minus_mult_minus)
qed

lemma haversine_term_swap:
  fixes la1 la2 lo1 lo2 :: real
  shows "sin (toRadians (la2 - la1) / 2) * sin (toRadians (la2 - la1) / 2) +
         cos (toRadians la1) * cos (toRadians la2) *
         sin (toRadians (lo2 - lo1) / 2) * sin (toRadians (lo2 - lo1) / 2) =
         sin (toRadians (la1 - la2) / 2) * sin (toRadians (la1 - la2) / 2) +
         cos (toRadians la2) * cos (toRadians la1) *
         sin (toRadians (lo1 - lo2) / 2) * sin (toRadians (lo1 - lo2) / 2)"
proof -
  have "cos (toRadians la1) * cos (toRadians la2) *
         sin (toRadians (lo2 - lo1) / 2) * sin (toRadians (lo2 - lo1) / 2) =
        cos (toRadians la2) * cos (toRadians la1) *
         (sin (toRadians (lo2 - lo1) / 2) * sin (toRadians (lo2 - lo1) / 2))"
    by (simp add: mult.assoc mult.left_commute)
  also have "\<dots> = cos (toRadians la2) * cos (toRadians la1) *
         (sin (toRadians (lo1 - lo2) / 2) * sin (toRadians (lo1 - lo2) / 2))"
    by (simp only: sin_half_sq_swap [of lo2 lo1])
  finally show ?thesis
    by (simp only: sin_half_sq_swap [of la2 la1] mult.assoc)
qed

text \<open>
  In exact arithmetic the term under the two square roots lies between 0 and 1, so
  neither \<open>Math.sqrt\<close> is applied to a negative number. In double precision the
  term can round above 1 for nearly antipodal points.
\<close>

lemma sin_half_sq: "sin (x / 2) * sin (x / 2) = (1 - cos x) / (2::real)"
  using cos_double_sin [of "x / 2"] by (simp add: power2_eq_square)

lemma haversine_term_eq:
  fixes p1 p2 l :: real
  shows "sin ((p2 - p1) / 2) * sin ((p2 - p1) / 2) + cos p1 * cos p2 * sin (l / 2) * sin (l / 2) =
         (1 - (sin p1 * sin p2 + cos p1 * cos p2 * cos l)) / 2"
proof -
  have "sin ((p2 - p1) / 2) * sin ((p2 - p1) / 2) + cos p1 * cos p2 * sin (l / 2) * sin (l / 2) =
        (1 - cos (p2 - p1)) / 2 + cos p1 * cos p2 * ((1 - cos l) / 2)"
    by (simp only: mult.assoc sin_half_sq)
  also have "\<dots> = (1 - (sin p1 * sin p2 + cos p1 * cos p2 * cos l)) / 2"
    by (simp add: cos_diff field_simps)
  finally show ?thesis .
qed

lemma sphere_dot_bound:
  fixes p1 p2 l :: real
  shows "\<bar>sin p1 * sin p2 + cos p1 * cos p2 * cos l\<bar> \<le> 1"
proof -
  let ?w = "cos l"
  let ?X = "sin p1 * sin p2 + cos p1 * cos p2 * ?w"
  have X: "?X = (1 + ?w) / 2 * cos (p1 - p2) + (1 - ?w) / 2 * (- cos (p1 + p2))"
    by (simp add: cos_diff cos_add algebra_simps diff_divide_distrib add_divide_distrib)
  have "0 \<le> 1 + ?w" using cos_ge_minus_one [of l] by linarith
  then have a: "0 \<le> (1 + ?w) / 2" by simp
  have b: "0 \<le> (1 - ?w) / 2" by simp
  have "(1 + ?w) / 2 * cos (p1 - p2) \<le> (1 + ?w) / 2 * 1"
    using a cos_le_one by (intro mult_left_mono) auto
  moreover have "(1 - ?w) / 2 * (- cos (p1 + p2)) \<le> (1 - ?w) / 2 * 1"
    using b cos_ge_minus_one [of "p1 + p2"] by (intro mult_left_mono) auto
  moreover have "(1 + ?w) / 2 * (- 1) \<le> (1 + ?w) / 2 * cos (p1 - p2)"
    using a cos_ge_minus_one [of "p1 - p2"] by (intro mult_left_mono) auto
  moreover have "(1 - ?w) / 2 * (- 1) \<le> (1 - ?w) / 2 * (- cos (p1 + p2))"
    using b cos_le_one [of "p1 + p2"] by (intro mult_left_mono) auto
  ultimately have "?X \<le> 1 \<and> - 1 \<le> ?X"
    unfolding X by (simp add: field_simps)
  then show ?thesis by (simp add: abs_le_iff)
qed

lemma haversine_term_range:
  fixes p1 p2 l :: real
  shows "0 \<le> sin ((p2 - p1) / 2) * sin ((p2 - p1) / 2) +
              cos p1 * cos p2 * sin (l / 2) * sin (l / 2)"
    and "sin ((p2 - p1) / 2) * sin ((p2 - p1) / 2) +
         cos p1 * cos p2 * sin (l / 2) * sin (l / 2) \<le> 1"
  using sphere_dot_bound [of p1 p2 l] unfolding haversine_term_eq by (simp_all add: abs_le_iff)

section \<open>Lemmas on the running minimum\<close>

lemma le_Infinity: "d \<le> Infinity"
  by (cases d) simp_all

lemma min_Infinity: "min Infinity d = d" "min d Infinity = d"
  by (simp_all add: min.absorb1 min.absorb2 le_Infinity)

lemma less_min: "(if d < m then d else m) = min d (m::distance)"
  by (cases "d < m") (auto simp: min_def)

lemma numbers_append: "numbers (xs @ ys) = numbers xs @ numbers ys"
  by (simp add: numbers_def)

lemma numbers_Some: "numbers (map Some kms) = map Finite kms"
  by (induction kms) (simp_all add: numbers_def)

lemma numbers_NaN: "\<forall>d \<in> set ds. d = None \<Longrightarrow> numbers ds = []"
  by (induction ds) (simp_all add: numbers_def)

lemma segmentLoop_fold:
  "segmentLoop sd u ring m =
   fold min (numbers (map (\<lambda>(p1, p2). sd u p1 p2) (zip ring (tl ring)))) m"
  by (induction sd u ring m rule: segmentLoop.induct)
    (simp_all add: numbers_def less_min split: option.splits)

lemma ringLoop_fold: "ringLoop sd u rings m = fold min (numbers (edgeDistances sd u rings)) m"
proof (induction rings arbitrary: m)
  case Nil
  then show ?case by (simp add: edgeDistances_def numbers_def)
next
  case (Cons ring rings)
  have "edgeDistances sd u (ring # rings) =
        map (\<lambda>(p1, p2). sd u p1 p2) (zip ring (tl ring)) @ edgeDistances sd u rings"
    by (simp add: edgeDistances_def)
  then show ?case
    by (simp add: Cons.IH segmentLoop_fold numbers_append)
qed

lemma calculateMinimumDistanceManually_Min:
  "calculateMinimumDistanceManually sd u rings =
   Min (set (Infinity # numbers (edgeDistances sd u rings)))"
  by (simp only: calculateMinimumDistanceManually_def ringLoop_fold Min.set_eq_fold)

lemma distanceLoop_step:
  "distanceLoop T sd coerce u (por # rest) m =
     (case usableRegion T coerce u por of
        None \<Rightarrow> distanceLoop T sd coerce u rest m
      | Some (clean, True) \<Rightarrow> Finite 0
      | Some (clean, False) \<Rightarrow>
          distanceLoop T sd coerce u rest (fold min (numbers (edgeDistances sd u clean)) m))"
proof -
  have f: "min (calculateMinimumDistanceManually sd u clean) m =
      fold min (numbers (edgeDistances sd u clean)) m"
    for clean
  proof -
    let ?E = "numbers (edgeDistances sd u clean)"
    have "fold min ?E m = Min (set (m # ?E))"
      by (simp only: Min.set_eq_fold)
    also have "\<dots> = min (Min (set (Infinity # ?E))) m"
      by (cases "?E = []") (simp_all add: min_Infinity min.commute)
    finally show ?thesis
      by (simp only: calculateMinimumDistanceManually_Min)
  qed
  show ?thesis
    by (simp add: usableRegion_def Let_def less_min f split: option.splits bool.splits)
qed

lemma distanceLoop_fold:
  "distanceLoop T sd coerce u ps m =
     (if \<exists>por \<in> set ps. containing T coerce u por then Finite 0
      else fold min (numbers (routeEdgeDistances T sd coerce u ps)) m)"
proof (induction ps arbitrary: m)
  case Nil
  then show ?case by (simp add: routeEdgeDistances_def numbers_def)
next
  case (Cons por ps)
  have r: "routeEdgeDistances T sd coerce u (por # ps) =
        (case usableRegion T coerce u por of
           Some (clean, False) \<Rightarrow> edgeDistances sd u clean
         | _ \<Rightarrow> []) @ routeEdgeDistances T sd coerce u ps"
    by (simp add: routeEdgeDistances_def)
  show ?case
    unfolding distanceLoop_step r
    by (auto simp: Cons.IH containing_def numbers_append numbers_def
        split: option.splits bool.splits)
qed

lemma calculateDistanceToRoute_run:
  assumes "pointsOnRoutes route = Some ps"
  shows "calculateDistanceToRoute T sd coerce route u =
      Inr (if \<exists>por \<in> set ps. containing T coerce u por then Finite 0
           else Min (set (Infinity # numbers (routeEdgeDistances T sd coerce u ps))))"
  using assms
  by (simp only: calculateDistanceToRoute_def distanceLoop_fold Min.set_eq_fold option.case)

lemma unusable_no_edges:
  "\<forall>por \<in> set ps. usableRegion T coerce u por = None \<Longrightarrow>
   routeEdgeDistances T sd coerce u ps = [] \<and> \<not> (\<exists>por \<in> set ps. containing T coerce u por)"
  by (induction ps) (auto simp: routeEdgeDistances_def containing_def)

text \<open>A usable region has at least one segment.\<close>

lemma closeRing_length: "closeRing u = Some ring \<Longrightarrow> 4 \<le> length ring"
  by (auto simp: closeRing_def Let_def split: if_splits)

lemma sanitizeRings_rings: "ring \<in> set (sanitizeRings coerce rings) \<Longrightarrow> 4 \<le> length ring"
  by (induction coerce rings rule: sanitizeRings.induct)
    (auto split: option.splits dest: closeRing_length)

lemma ensureNumericCoordinates_Some:
  assumes "ensureNumericCoordinates coerce v = Some clean"
  shows "clean \<noteq> [] \<and> (\<forall>ring \<in> set clean. 4 \<le> length ring)"
proof (cases v)
  case (JArr rings)
  with assms have "clean = sanitizeRings coerce rings" and "clean \<noteq> []"
    by (auto simp: ensureNumericCoordinates_def Let_def split: if_splits)
  then show ?thesis using sanitizeRings_rings by blast
qed (use assms in \<open>simp_all add: ensureNumericCoordinates_def\<close>)

lemma edgeDistances_nonempty:
  assumes "clean \<noteq> []" and "\<forall>ring \<in> set clean. 4 \<le> length ring"
  shows "edgeDistances sd u clean \<noteq> []"
proof -
  from assms obtain ring rest where c: "clean = ring # rest" and "4 \<le> length ring"
    by (cases clean) auto
  then obtain p1 p2 tl' where "ring = p1 # p2 # tl'"
    by (cases ring; cases "tl ring") auto
  with c show ?thesis by (simp add: edgeDistances_def)
qed

lemma usableRegion_edges:
  "usableRegion T coerce u por = Some (clean, inside) \<Longrightarrow> edgeDistances sd u clean \<noteq> []"
proof -
  assume "usableRegion T coerce u por = Some (clean, inside)"
  then obtain coords where "ensureNumericCoordinates coerce coords = Some clean"
    by (auto simp: usableRegion_def split: option.splits)
  then have "clean \<noteq> [] \<and> (\<forall>ring \<in> set clean. 4 \<le> length ring)"
    by (rule ensureNumericCoordinates_Some)
  then show ?thesis by (simp add: edgeDistances_nonempty)
qed

lemma routeEdgeDistances_nonempty:
  assumes "por \<in> set ps" and "usableRegion T coerce u por \<noteq> None"
    and "\<not> containing T coerce u por"
  shows "routeEdgeDistances T sd coerce u ps \<noteq> []"
proof -
  from assms(2,3) obtain clean where us: "usableRegion T coerce u por = Some (clean, False)"
    by (auto simp: containing_def)
  then have "edgeDistances sd u clean \<noteq> []" by (rule usableRegion_edges)
  then obtain d where "d \<in> set (edgeDistances sd u clean)"
    by (cases "edgeDistances sd u clean") auto
  with assms(1) us have "d \<in> set (routeEdgeDistances T sd coerce u ps)"
    by (force simp: routeEdgeDistances_def)
  then show ?thesis by auto
qed

lemma Min_Finite:
  assumes "kms \<noteq> []"
  shows "Min (set (Infinity # map Finite kms)) = Finite (Min (set kms))"
proof -
  have m: "mono Finite"
    by (rule monoI) simp
  have "Min (set (Infinity # map Finite kms)) = Min (Finite ` set kms)"
    using assms by (simp add: min_Infinity)
  also have "\<dots> = Finite (Min (set kms))"
    using assms by (simp add: mono_Min_commute [OF m])
  finally show ?thesis .
qed

section \<open>Lemmas on the ranking\<close>

lemma comparefn_le: "comparefn a b \<le> 0 \<longleftrightarrow> snd a \<le> snd b"
  by (cases a; cases b; cases "snd a"; cases "snd b") auto

lemma mset_insertBy: "mset (insertBy cmp x ys) = add_mset x (mset ys)"
  by (induction ys) simp_all

lemma mset_sortBy: "mset (sortBy cmp xs) = mset xs"
  by (induction xs) (simp_all add: sortBy_def mset_insertBy)

lemma set_insertBy: "set (insertBy cmp x ys) = insert x (set ys)"
  by (induction ys) auto

lemma sorted_insertBy:
  "sorted (map snd ys) \<Longrightarrow> sorted (map snd (insertBy comparefn x ys))"
proof (induction ys)
  case Nil
  then show ?case by simp
next
  case (Cons y ys)
  show ?case
  proof (cases "comparefn x y \<le> 0")
    case True
    then have "snd x \<le> snd y" by (simp add: comparefn_le)
    with Cons.prems True show ?thesis by auto
  next
    case False
    then have "snd y \<le> snd x" using comparefn_le [of x y] by auto
    with Cons False show ?thesis by (auto simp: set_insertBy)
  qed
qed

lemma sorted_sortBy: "sorted (map snd (sortBy comparefn xs))"
  by (induction xs) (simp_all add: sortBy_def sorted_insertBy)

lemma paired_sortBy:
  "\<forall>e \<in> set (sortBy cmp (map (\<lambda>r. (r, f r)) rs)). snd e = f (fst e)"
proof -
  have "set (sortBy cmp (map (\<lambda>r. (r, f r)) rs)) = set (map (\<lambda>r. (r, f r)) rs)"
    by (metis mset_sortBy set_mset_mset)
  then show ?thesis by auto
qed

lemma slice0_take: "1 \<le> k \<Longrightarrow> slice0 k xs = take (nat k) xs"
  by (simp add: slice0_def Let_def min_def)

lemma nearestRoutes_take:
  assumes "1 \<le> k"
  shows "\<exists>ys. mset ys = mset routes \<and>
          sorted (map (routeDistance T sd coerce (lng, lat)) ys) \<and>
          nearestRoutes T sd coerce routes lng lat k = take (nat k) ys"
proof -
  let ?f = "routeDistance T sd coerce (lng, lat)"
  let ?s = "sortBy comparefn (map (\<lambda>r. (r, ?f r)) routes)"
  let ?ys = "map fst ?s"
  have res: "nearestRoutes T sd coerce routes lng lat k = take (nat k) ?ys"
    using assms by (simp add: nearestRoutes_def Let_def slice0_take take_map)
  have "mset ?ys = image_mset fst (mset ?s)"
    by simp
  also have "\<dots> = image_mset fst (mset (map (\<lambda>r. (r, ?f r)) routes))"
    by (simp only: mset_sortBy)
  also have "\<dots> = mset routes"
    by (simp add: image_mset.compositionality comp_def)
  finally have m: "mset ?ys = mset routes" .
  have "map ?f ?ys = map snd ?s"
    using paired_sortBy [of comparefn ?f routes] by simp
  then have s: "sorted (map ?f ?ys)"
    by (simp only: sorted_sortBy)
  from m s res show ?thesis
    by blast
qed

section \<open>Lemmas on the viewport map\<close>

lemma keys_mapSet: "set (map fst (mapSet k v m)) = insert k (set (map fst m))"
proof (induction m)
  case Nil
  then show ?case by simp
next
  case (Cons e m)
  obtain k' v' where e: "e = (k', v')" by (cases e)
  show ?case
  proof (cases "k = k'")
    case True
    with e show ?thesis by simp
  next
    case False
    with e Cons.IH show ?thesis by (simp add: insert_commute)
  qed
qed

lemma distinct_mapSet: "distinct (map fst m) \<Longrightarrow> distinct (map fst (mapSet k v m))"
proof (induction m)
  case Nil
  then show ?case by simp
next
  case (Cons e m)
  obtain k' v' where e: "e = (k', v')" by (cases e)
  show ?case
  proof (cases "k = k'")
    case True
    with Cons.prems e show ?thesis by simp
  next
    case False
    have "k' \<notin> set (map fst (mapSet k v m))"
      using Cons.prems e False by (simp only: keys_mapSet) auto
    with Cons e False show ?thesis by simp
  qed
qed

lemma set_mapSet: "set (mapSet k v m) \<subseteq> insert (k, v) (set m)"
  by (induction m) (auto split: if_splits)

lemma uniqueKeys_mapSet:
  assumes "uniqueKeys m" and "truthyId (pointId pt)"
  shows "uniqueKeys (mapSet (pointId pt) pt m)"
proof -
  have "\<forall>e \<in> set (mapSet (pointId pt) pt m). pointId (snd e) = fst e \<and> truthyId (fst e)"
  proof
    fix e assume "e \<in> set (mapSet (pointId pt) pt m)"
    then have "e = (pointId pt, pt) \<or> e \<in> set m"
      using set_mapSet [of "pointId pt" pt m] by auto
    then show "pointId (snd e) = fst e \<and> truthyId (fst e)"
      using assms by (auto simp: uniqueKeys_def list_all_iff)
  qed
  then show ?thesis
    using assms(1) by (auto simp: uniqueKeys_def distinct_mapSet list_all_iff)
qed

lemma uniqueKeys_visitPoint: "uniqueKeys m \<Longrightarrow> uniqueKeys (visitPoint T b por m)"
  by (simp add: visitPoint_def uniqueKeys_mapSet split: option.splits)

lemma uniqueKeys_pointsLoop: "uniqueKeys m \<Longrightarrow> uniqueKeys (pointsLoop T b ps m)"
  by (induction ps arbitrary: m) (simp_all add: uniqueKeys_visitPoint)

lemma uniqueKeys_routesLoop:
  "uniqueKeys m \<Longrightarrow> routesLoop T b rs m = Inr m' \<Longrightarrow> uniqueKeys m'"
proof (induction rs arbitrary: m)
  case Nil
  then show ?case by simp
next
  case (Cons r rs)
  from Cons.prems(2) obtain ps where ps: "pointsOnRoutes r = Some ps"
    and run: "routesLoop T b rs (pointsLoop T b ps m) = Inr m'"
    by (auto split: option.splits)
  from Cons.prems(1) have "uniqueKeys (pointsLoop T b ps m)"
    by (rule uniqueKeys_pointsLoop)
  then show ?case using run by (rule Cons.IH)
qed

lemma uniqueKeys_ids: "uniqueKeys m \<Longrightarrow> map pointId (mapValues m) = map fst m"
  by (induction m) (auto simp: uniqueKeys_def mapValues_def)

lemma pointsInViewport_uniqueKeys:
  assumes "pointsInViewport T routes lng1 lat1 lng2 lat2 = Inr ps"
  shows "\<exists>m. uniqueKeys m \<and> ps = mapValues m"
proof -
  let ?b = "bboxPolygon T (min lng1 lng2, min lat1 lat2, max lng1 lng2, max lat1 lat2)"
  from assms obtain m where m: "routesLoop T ?b routes [] = Inr m" and ps: "ps = mapValues m"
    by (auto simp: pointsInViewport_def Let_def split: sum.splits)
  have "uniqueKeys []" by (simp add: uniqueKeys_def)
  then have "uniqueKeys m" using m by (rule uniqueKeys_routesLoop)
  with ps show ?thesis by blast
qed

section \<open>Lemmas on the concrete inputs\<close>

lemma sq_usable:
  "usableRegion boxTurf numericOnly u \<lparr>point = Some (pointOf i unitSquare)\<rparr> =
   Some ([[(0, 0), (0, 1), (1, 1), (1, 0), (0, 0)]], inBox u (0, 0, 1, 1))"
  by (simp add: usableRegion_def regionCoordinates_def pointOf_def unitSquare_def squareRing_def
      ensureNumericCoordinates_def closeRing_def Number_def Let_def boxTurf_def boxOf_def
      coordsToJs_def positionToJs_def)

lemma null_unusable:
  "usableRegion T coerce u \<lparr>point = Some (pointOf i JNull)\<rparr> = None"
  by (simp add: usableRegion_def regionCoordinates_def pointOf_def)

lemma routeDistance_fixtures:
  "routeDistance boxTurf exactDistance numericOnly (1 / 2, 1 / 2) brokenRoute = Infinity"
  "routeDistance boxTurf exactDistance numericOnly (1 / 2, 1 / 2) (routeOf 2 []) = Infinity"
  "routeDistance boxTurf exactDistance numericOnly (1 / 2, 1 / 2)
     (routeOf 1 [pointOf 1 unitSquare]) = Finite 0"
  by (simp_all add: routeDistance_def calculateDistanceToRoute_def brokenRoute_def routeOf_def
      distanceLoop_step sq_usable del: distanceLoop.simps(2))

lemma unitSquare_inViewport:
  "isPointInViewport boxTurf (pointOf i unitSquare) b = boxesMeet (0, 0, 1, 1) b"
  by (simp add: isPointInViewport_def pointOf_def unitSquare_def squareRing_def boxTurf_def
      boxOf_def Number_def)

section \<open>Distance to a route\<close>

text \<open>
  Claim C1, as the code has it. For a route whose \<open>pointsOnRoutes\<close> can be iterated,
  the distance evaluation returns 0 as soon as one usable region contains the query
  point. When no usable region contains it and the engine evaluates every segment
  distance of the usable regions to a number, the result is the least of these distances
  over all segments of all sanitized rings, with \<open>Infinity\<close> as the value of the empty
  minimum; it is finite as soon as one region is usable. The result is \<open>Infinity\<close>
  when no region is usable. An unusable region is passed over and never ends the
  evaluation. Nothing is said here of a segment distance that evaluates to NaN.
\<close>

theorem calculateDistanceToRoute_min_distance:
  assumes "pointsOnRoutes route = Some ps"
  shows "((\<exists>por \<in> set ps. containing T coerce u por) \<longrightarrow>
            calculateDistanceToRoute T segDist coerce route u = Inr (Finite 0)) \<and>
         ((\<forall>por \<in> set ps. \<not> containing T coerce u por) \<and>
          routeEdgeDistances T segDist coerce u ps = map Some kms \<longrightarrow>
            calculateDistanceToRoute T segDist coerce route u =
              Inr (Min (set (Infinity # map Finite kms)))) \<and>
         ((\<forall>por \<in> set ps. \<not> containing T coerce u por) \<and>
          routeEdgeDistances T segDist coerce u ps = map Some kms \<and>
          (\<exists>por \<in> set ps. usableRegion T coerce u por \<noteq> None) \<longrightarrow>
            kms \<noteq> [] \<and>
            calculateDistanceToRoute T segDist coerce route u = Inr (Finite (Min (set kms)))) \<and>
         ((\<forall>por \<in> set ps. usableRegion T coerce u por = None) \<longrightarrow>
            calculateDistanceToRoute T segDist coerce route u = Inr Infinity)"
proof -
  note run = calculateDistanceToRoute_run [OF assms, of T segDist coerce u]
  have inside: "(\<exists>por \<in> set ps. containing T coerce u por) \<longrightarrow>
      calculateDistanceToRoute T segDist coerce route u = Inr (Finite 0)"
    by (simp add: run)
  have least: "(\<forall>por \<in> set ps. \<not> containing T coerce u por) \<and>
      routeEdgeDistances T segDist coerce u ps = map Some kms \<longrightarrow>
      calculateDistanceToRoute T segDist coerce route u =
        Inr (Min (set (Infinity # map Finite kms)))"
    by (simp add: run numbers_Some)
  have finite: "(\<forall>por \<in> set ps. \<not> containing T coerce u por) \<and>
      routeEdgeDistances T segDist coerce u ps = map Some kms \<and>
      (\<exists>por \<in> set ps. usableRegion T coerce u por \<noteq> None) \<longrightarrow>
      kms \<noteq> [] \<and>
      calculateDistanceToRoute T segDist coerce route u = Inr (Finite (Min (set kms)))"
  proof
    assume a: "(\<forall>por \<in> set ps. \<not> containing T coerce u por) \<and>
        routeEdgeDistances T segDist coerce u ps = map Some kms \<and>
        (\<exists>por \<in> set ps. usableRegion T coerce u por \<noteq> None)"
    then obtain por where "por \<in> set ps" and "usableRegion T coerce u por \<noteq> None"
      and "\<not> containing T coerce u por"
      by blast
    then have "routeEdgeDistances T segDist coerce u ps \<noteq> []"
      by (rule routeEdgeDistances_nonempty)
    with a have ne: "kms \<noteq> []"
      by auto
    from a least have "calculateDistanceToRoute T segDist coerce route u =
        Inr (Min (set (Infinity # map Finite kms)))"
      by blast
    then have "calculateDistanceToRoute T segDist coerce route u = Inr (Finite (Min (set kms)))"
      by (simp only: Min_Finite [OF ne])
    with ne show "kms \<noteq> [] \<and>
        calculateDistanceToRoute T segDist coerce route u = Inr (Finite (Min (set kms)))"
      by blast
  qed
  have unusable: "(\<forall>por \<in> set ps. usableRegion T coerce u por = None) \<longrightarrow>
      calculateDistanceToRoute T segDist coerce route u = Inr Infinity"
  proof
    assume "\<forall>por \<in> set ps. usableRegion T coerce u por = None"
    then have "routeEdgeDistances T segDist coerce u ps = []"
      and "\<not> (\<exists>por \<in> set ps. containing T coerce u por)"
      using unusable_no_edges by blast+
    then show "calculateDistanceToRoute T segDist coerce route u = Inr Infinity"
      by (simp add: run numbers_def)
  qed
  from inside least finite unusable show ?thesis
    by (intro conjI)
qed

text \<open>
  Instances, with exact segment distances: the unit square seen from its centre, the
  unit square seen from \<open>(10, 10)\<close>, and a point whose coordinates are \<open>null\<close>.
\<close>

theorem calculateDistanceToRoute_min_distance_witness:
  "pointsOnRoutes (routeOf 1 [pointOf 1 unitSquare]) =
     Some [\<lparr>point = Some (pointOf 1 unitSquare)\<rparr>] \<and>
   calculateDistanceToRoute boxTurf exactDistance numericOnly
     (routeOf 1 [pointOf 1 unitSquare]) (1 / 2, 1 / 2) = Inr (Finite 0) \<and>
   routeEdgeDistances boxTurf exactDistance numericOnly (10, 10)
     [\<lparr>point = Some (pointOf 1 unitSquare)\<rparr>] =
     map Some [pointToLineDistance (10, 10) (0, 0) (0, 1),
               pointToLineDistance (10, 10) (0, 1) (1, 1),
               pointToLineDistance (10, 10) (1, 1) (1, 0),
               pointToLineDistance (10, 10) (1, 0) (0, 0)] \<and>
   calculateDistanceToRoute boxTurf exactDistance numericOnly
     (routeOf 1 [pointOf 1 unitSquare]) (10, 10) =
     Inr (Finite (Min (set [pointToLineDistance (10, 10) (0, 0) (0, 1),
                            pointToLineDistance (10, 10) (0, 1) (1, 1),
                            pointToLineDistance (10, 10) (1, 1) (1, 0),
                            pointToLineDistance (10, 10) (1, 0) (0, 0)]))) \<and>
   calculateDistanceToRoute boxTurf exactDistance numericOnly
     (routeOf 1 [pointOf 1 JNull]) (10, 10) = Inr Infinity"
proof -
  note inst = calculateDistanceToRoute_min_distance [of "routeOf 1 [pointOf 1 unitSquare]"
      "[\<lparr>point = Some (pointOf 1 unitSquare)\<rparr>]" boxTurf numericOnly _ exactDistance]
  have p: "pointsOnRoutes (routeOf 1 [pointOf 1 unitSquare]) =
      Some [\<lparr>point = Some (pointOf 1 unitSquare)\<rparr>]"
    by (simp add: routeOf_def)
  have inside: "calculateDistanceToRoute boxTurf exactDistance numericOnly
      (routeOf 1 [pointOf 1 unitSquare]) (1 / 2, 1 / 2) = Inr (Finite 0)"
    using inst [OF p, of "(1 / 2, 1 / 2)"] by (simp add: containing_def sq_usable)
  have edges: "routeEdgeDistances boxTurf exactDistance numericOnly (10, 10)
      [\<lparr>point = Some (pointOf 1 unitSquare)\<rparr>] =
      map Some [pointToLineDistance (10, 10) (0, 0) (0, 1),
                pointToLineDistance (10, 10) (0, 1) (1, 1),
                pointToLineDistance (10, 10) (1, 1) (1, 0),
                pointToLineDistance (10, 10) (1, 0) (0, 0)]"
    by (simp add: routeEdgeDistances_def edgeDistances_def sq_usable exactDistance_def)
  have out: "\<forall>por \<in> set [\<lparr>point = Some (pointOf 1 unitSquare)\<rparr>].
      \<not> containing boxTurf numericOnly (10, 10) por"
    by (simp add: containing_def sq_usable)
  have us: "\<exists>por \<in> set [\<lparr>point = Some (pointOf 1 unitSquare)\<rparr>].
      usableRegion boxTurf numericOnly (10, 10) por \<noteq> None"
    by (simp add: sq_usable)
  have outside: "calculateDistanceToRoute boxTurf exactDistance numericOnly
      (routeOf 1 [pointOf 1 unitSquare]) (10, 10) =
      Inr (Finite (Min (set [pointToLineDistance (10, 10) (0, 0) (0, 1),
                             pointToLineDistance (10, 10) (0, 1) (1, 1),
                             pointToLineDistance (10, 10) (1, 1) (1, 0),
                             pointToLineDistance (10, 10) (1, 0) (0, 0)])))"
    using inst [OF p, of "(10, 10)"
        "[pointToLineDistance (10, 10) (0, 0) (0, 1), pointToLineDistance (10, 10) (0, 1) (1, 1),
          pointToLineDistance (10, 10) (1, 1) (1, 0), pointToLineDistance (10, 10) (1, 0) (0, 0)]"]
      edges out us
    by blast
  have none: "calculateDistanceToRoute boxTurf exactDistance numericOnly
      (routeOf 1 [pointOf 1 JNull]) (10, 10) = Inr Infinity"
    using calculateDistanceToRoute_min_distance [of "routeOf 1 [pointOf 1 JNull]"
        "[\<lparr>point = Some (pointOf 1 JNull)\<rparr>]" boxTurf numericOnly "(10, 10)" exactDistance]
    by (simp add: routeOf_def null_unusable)
  from p inside edges outside none show ?thesis by blast
qed

text \<open>
  Claim C1 as stated speaks of every route. A route whose \<open>pointsOnRoutes\<close> is missing
  cannot be iterated: the evaluation throws and returns no distance.
\<close>

theorem calculateDistanceToRoute_throws_without_points:
  "calculateDistanceToRoute boxTurf exactDistance numericOnly brokenRoute (0, 0) = Inl TypeError"
  by (simp add: calculateDistanceToRoute_def brokenRoute_def)

text \<open>
  A segment distance that is NaN never replaces the running minimum. When every segment
  distance of a route is NaN, the result stays \<open>Infinity\<close>, also when regions are usable.
\<close>

lemma calculateDistanceToRoute_all_NaN:
  assumes "pointsOnRoutes route = Some ps"
    and "\<forall>por \<in> set ps. \<not> containing T coerce u por"
    and "\<forall>d \<in> set (routeEdgeDistances T segDist coerce u ps). d = None"
  shows "calculateDistanceToRoute T segDist coerce route u = Inr Infinity"
  using assms(2) numbers_NaN [OF assms(3)]
  by (simp add: calculateDistanceToRoute_run [OF assms(1)])

section \<open>Nearest routes\<close>

text \<open>
  Claim C2. For a count \<open>k \<ge> 1\<close> the result has \<open>min k n\<close> routes in
  non-decreasing order of their distance, and it is the first \<open>k\<close> entries of an
  ordering of the whole dataset: no route is left out before the cut. A route whose
  distance evaluation throws takes part with the distance \<open>Infinity\<close>.
\<close>

theorem nearestRoutes_sorted_prefix:
  assumes "1 \<le> k"
  shows "length (nearestRoutes T segDist coerce routes lng lat k) = min (nat k) (length routes) \<and>
         sorted (map (routeDistance T segDist coerce (lng, lat)) (nearestRoutes T segDist coerce routes lng lat k)) \<and>
         (\<exists>ys. mset ys = mset routes \<and>
               sorted (map (routeDistance T segDist coerce (lng, lat)) ys) \<and>
               nearestRoutes T segDist coerce routes lng lat k = take (nat k) ys) \<and>
         (\<forall>r e. calculateDistanceToRoute T segDist coerce r (lng, lat) = Inl e \<longrightarrow>
                 routeDistance T segDist coerce (lng, lat) r = Infinity)"
proof -
  let ?f = "routeDistance T segDist coerce (lng, lat)"
  from assms obtain ys where m: "mset ys = mset routes" and s: "sorted (map ?f ys)"
    and res: "nearestRoutes T segDist coerce routes lng lat k = take (nat k) ys"
    using nearestRoutes_take by blast
  have "length ys = length routes"
    using m by (metis size_mset)
  then have len: "length (nearestRoutes T segDist coerce routes lng lat k) = min (nat k) (length routes)"
    by (simp add: res)
  have srt: "sorted (map ?f (nearestRoutes T segDist coerce routes lng lat k))"
    using s by (simp only: res take_map[symmetric] sorted_wrt_take)
  have thr: "\<forall>r e. calculateDistanceToRoute T segDist coerce r (lng, lat) = Inl e \<longrightarrow> ?f r = Infinity"
    by (simp add: routeDistance_def)
  from len srt m s res thr show ?thesis by blast
qed

text \<open>
  Instance: a route without \<open>pointsOnRoutes\<close>, a route without points and a
  route around the query point, asked for two routes.
\<close>

theorem nearestRoutes_sorted_prefix_witness:
  "(1::int) \<le> 2 \<and>
   nearestRoutes boxTurf exactDistance numericOnly
     [brokenRoute, routeOf 2 [], routeOf 1 [pointOf 1 unitSquare]] (1 / 2) (1 / 2) 2 =
     [routeOf 1 [pointOf 1 unitSquare], brokenRoute] \<and>
   length (nearestRoutes boxTurf exactDistance numericOnly
     [brokenRoute, routeOf 2 [], routeOf 1 [pointOf 1 unitSquare]] (1 / 2) (1 / 2) 2) = 2 \<and>
   sorted (map (routeDistance boxTurf exactDistance numericOnly (1 / 2, 1 / 2))
     (nearestRoutes boxTurf exactDistance numericOnly
        [brokenRoute, routeOf 2 [], routeOf 1 [pointOf 1 unitSquare]] (1 / 2) (1 / 2) 2)) \<and>
   routeDistance boxTurf exactDistance numericOnly (1 / 2, 1 / 2) brokenRoute = Infinity"
proof -
  have k: "(1::int) \<le> 2" by simp
  have run: "nearestRoutes boxTurf exactDistance numericOnly
     [brokenRoute, routeOf 2 [], routeOf 1 [pointOf 1 unitSquare]] (1 / 2) (1 / 2) 2 =
     [routeOf 1 [pointOf 1 unitSquare], brokenRoute]"
    by (simp add: nearestRoutes_def sortBy_def slice0_def routeDistance_fixtures Let_def)
  have thrown: "calculateDistanceToRoute boxTurf exactDistance numericOnly brokenRoute (1 / 2, 1 / 2) = Inl TypeError"
    by (simp add: calculateDistanceToRoute_def brokenRoute_def)
  show ?thesis
    using nearestRoutes_sorted_prefix [OF k, of boxTurf exactDistance numericOnly
        "[brokenRoute, routeOf 2 [], routeOf 1 [pointOf 1 unitSquare]]" "1 / 2" "1 / 2"]
      run thrown k
    by auto
qed

section \<open>The dataset cache\<close>

text \<open>
  Claim C3. A cached dataset younger than the time-to-live is returned without a
  request and without a change of state. When the request fails, a cached dataset of any
  age is returned; the error is raised exactly when the request fails and nothing is
  cached; and a failed request leaves the cached dataset and its fetch time as they were.
  A request is made exactly when no fresh dataset is cached.
\<close>

theorem getRoutes_cache_contract:
  "(cachedData this = Some d \<and> now - lastFetchTime this < CACHE_TTL \<longrightarrow>
      getRoutes now (this, net) = (Inr d, (this, net))) \<and>
   (response net = None \<and> cachedData this = Some d \<longrightarrow>
      fst (getRoutes now (this, net)) = Inr d) \<and>
   (fst (getRoutes now (this, net)) = Inl DatasetUnavailable \<longleftrightarrow>
      response net = None \<and> cachedData this = None) \<and>
   (response net = None \<longrightarrow> fst (snd (getRoutes now (this, net))) = this) \<and>
   requests (snd (snd (getRoutes now (this, net)))) =
     (if cachedData this \<noteq> None \<and> now - lastFetchTime this < CACHE_TTL
      then requests net else requests net + 1)"
  by (auto simp add: getRoutes_def Let_def split: option.splits)

text \<open>
  Instances: a fresh cache, a stale cache with the upstream down, and an empty cache
  with the upstream down.
\<close>

theorem getRoutes_cache_contract_witness:
  "getRoutes 5 (\<lparr>cachedData = Some [], lastFetchTime = 0\<rparr>, \<lparr>response = None, requests = 0\<rparr>) =
     (Inr [], (\<lparr>cachedData = Some [], lastFetchTime = 0\<rparr>, \<lparr>response = None, requests = 0\<rparr>)) \<and>
   fst (getRoutes 600000 (\<lparr>cachedData = Some [], lastFetchTime = 0\<rparr>, \<lparr>response = None, requests = 0\<rparr>)) = Inr [] \<and>
   fst (snd (getRoutes 600000 (\<lparr>cachedData = Some [], lastFetchTime = 0\<rparr>, \<lparr>response = None, requests = 0\<rparr>))) =
     \<lparr>cachedData = Some [], lastFetchTime = 0\<rparr> \<and>
   requests (snd (snd (getRoutes 600000 (\<lparr>cachedData = Some [], lastFetchTime = 0\<rparr>, \<lparr>response = None, requests = 0\<rparr>)))) = 1 \<and>
   fst (getRoutes 5 (newDataService, \<lparr>response = None, requests = 0\<rparr>)) = Inl DatasetUnavailable"
  using getRoutes_cache_contract [of "\<lparr>cachedData = Some [], lastFetchTime = 0\<rparr>" "[]" 5 "\<lparr>response = None, requests = 0\<rparr>"]
    getRoutes_cache_contract [of "\<lparr>cachedData = Some [], lastFetchTime = 0\<rparr>" "[]" 600000 "\<lparr>response = None, requests = 0\<rparr>"]
    getRoutes_cache_contract [of newDataService "[]" 5 "\<lparr>response = None, requests = 0\<rparr>"]
  by (simp add: CACHE_TTL_def newDataService_def)

section \<open>The sanitizer\<close>




text \<open>
  Claim C8, as the code has it. On a non-empty list of rings of numeric pairs, each with
  at least four points and closed, the sanitizer returns the same rings.
\<close>

theorem ensureNumericCoordinates_idempotent:
  "rs \<noteq> [] \<Longrightarrow> \<forall>r \<in> set rs. length r \<ge> 4 \<and> hd r = last r \<Longrightarrow>
   ensureNumericCoordinates coerce (coordsToJs rs) = Some rs"
  by (simp add: ensureNumericCoordinates_def coordsToJs_def sanitizeRings_valid)

text \<open>
  Claim C8 as stated includes the empty ring list, on which the sanitizer returns
  \<open>None\<close>.
\<close>

theorem ensureNumericCoordinates_empty_list:
  "ensureNumericCoordinates numericOnly (coordsToJs []) = None"
  by (simp add: ensureNumericCoordinates_def coordsToJs_def)

text \<open>
  Instance: the unit square.
\<close>

theorem ensureNumericCoordinates_idempotent_witness:
  "[[(0, 0), (0, 1), (1, 1), (1, 0), (0, 0)]] \<noteq> ([] :: position list list) \<and>
   ensureNumericCoordinates numericOnly (coordsToJs [[(0, 0), (0, 1), (1, 1), (1, 0), (0, 0)]]) =
   Some [[(0, 0), (0, 1), (1, 1), (1, 0), (0, 0)]]"
  using ensureNumericCoordinates_idempotent [of "[[(0, 0), (0, 1), (1, 1), (1, 0), (0, 0)]]" numericOnly]
  by simp

section \<open>The haversine distance\<close>

text \<open>
  Claim C5, as the code has it. The haversine distance is symmetric and is 0 between a
  point and itself.
\<close>

theorem haversineDistance_symmetric:
  "haversineDistance a b = haversineDistance b a \<and> haversineDistance a a = 0"
proof
  show "haversineDistance a b = haversineDistance b a"
    unfolding haversineDistance_def Let_def
    by (simp only: haversine_term_swap [of "snd b" "snd a" "fst b" "fst a"])
  show "haversineDistance a a = 0"
    by (simp add: haversineDistance_def toRadians_def atan2_def)
qed

text \<open>
  Claim C5 as stated says that the distance is 0 only between equal points. At
  latitude 90 every longitude is the same place: the cosine of the latitude is 0. For
  the two points below the double-precision evaluation is 0 as well, since the product
  with the squared sine underflows.
\<close>

theorem haversineDistance_zero_at_pole:
  "haversineDistance (0, 90) (1 / 2 ^ 500, 90) = 0 \<and> (0 :: real, 90 :: real) \<noteq> (1 / 2 ^ 500, 90)"
  by (simp add: haversineDistance_def toRadians_def atan2_def)

text \<open>
  Claim C9. On a segment whose two ends are equal, the point-to-segment distance is the
  haversine distance to that end.
\<close>

theorem pointToLineDistance_degenerate:
  "pointToLineDistance p s s = haversineDistance p s"
  by (simp add: pointToLineDistance_def Let_def)

section \<open>Points in a viewport\<close>

text \<open>
  Claim C7. The two corners can be given in either order: the bounding box takes the
  minimum and the maximum of each coordinate, so the result is the same list.
\<close>

theorem pointsInViewport_corner_order:
  "pointsInViewport T routes lng1 lat1 lng2 lat2 = pointsInViewport T routes lng2 lat2 lng1 lat1 \<and>
   findPointsInViewport T now st lng1 lat1 lng2 lat2 = findPointsInViewport T now st lng2 lat2 lng1 lat1"
proof -
  have swap: "pointsInViewport T rs lng1 lat1 lng2 lat2 = pointsInViewport T rs lng2 lat2 lng1 lat1"
    for rs
    by (simp add: pointsInViewport_def min.commute max.commute)
  have "findPointsInViewport T now st lng1 lat1 lng2 lat2 =
        findPointsInViewport T now st lng2 lat2 lng1 lat1"
    by (simp only: findPointsInViewport_def swap)
  with swap show ?thesis by simp
qed

text \<open>
  Claim C6. When the query returns, no two points of the result have the same
  identifier.
\<close>

theorem pointsInViewport_unique_ids:
  assumes "pointsInViewport T routes lng1 lat1 lng2 lat2 = Inr ps"
  shows "distinct (map pointId ps)"
proof -
  from assms obtain m where u: "uniqueKeys m" and ps: "ps = mapValues m"
    using pointsInViewport_uniqueKeys by blast
  from u have "distinct (map fst m)" by (simp add: uniqueKeys_def)
  with u ps show ?thesis by (simp add: uniqueKeys_ids)
qed

text \<open>
  Instance: the point 7 on two routes, the point 8 on one.
\<close>

theorem pointsInViewport_unique_ids_witness:
  "pointsInViewport boxTurf
     [routeOf 1 [pointOf 7 unitSquare, pointOf 8 unitSquare], routeOf 2 [pointOf 7 unitSquare]]
     (- 1) (- 1) 2 2 = Inr [pointOf 7 unitSquare, pointOf 8 unitSquare] \<and>
   distinct (map pointId [pointOf 7 unitSquare, pointOf 8 unitSquare])"
proof -
  have run: "pointsInViewport boxTurf
     [routeOf 1 [pointOf 7 unitSquare, pointOf 8 unitSquare], routeOf 2 [pointOf 7 unitSquare]]
     (- 1) (- 1) 2 2 = Inr [pointOf 7 unitSquare, pointOf 8 unitSquare]"
    by (simp add: pointsInViewport_def routeOf_def visitPoint_def unitSquare_inViewport
        mapHas_def mapValues_def Let_def)
      (simp add: pointOf_def boxTurf_def)
  from pointsInViewport_unique_ids [OF run] run show ?thesis by simp
qed

text \<open>
  Claim C10. Every point of the result has a truthy identifier: a point with the
  identifier 0, an empty string or none is never returned.
\<close>

theorem pointsInViewport_truthy_ids:
  assumes "pointsInViewport T routes lng1 lat1 lng2 lat2 = Inr ps"
  shows "\<forall>pt \<in> set ps. truthyId (pointId pt)"
proof -
  from assms obtain m where u: "uniqueKeys m" and ps: "ps = mapValues m"
    using pointsInViewport_uniqueKeys by blast
  then show ?thesis by (auto simp: uniqueKeys_def mapValues_def list_all_iff)
qed

text \<open>
  Instance: a point with the identifier 0 whose region meets the viewport, beside a
  point with the identifier 3.
\<close>

theorem pointsInViewport_truthy_ids_witness:
  "pointsInViewport boxTurf [routeOf 1 [pointOf 0 unitSquare, pointOf 3 unitSquare]] 2 2 (- 1) (- 1) =
     Inr [pointOf 3 unitSquare] \<and>
   isPointInViewport boxTurf (pointOf 0 unitSquare) (bboxPolygon boxTurf (- 1, - 1, 2, 2)) \<and>
   truthyId (pointId (pointOf 3 unitSquare))"
proof -
  have run: "pointsInViewport boxTurf [routeOf 1 [pointOf 0 unitSquare, pointOf 3 unitSquare]]
      2 2 (- 1) (- 1) = Inr [pointOf 3 unitSquare]"
    by (simp add: pointsInViewport_def routeOf_def visitPoint_def unitSquare_inViewport
        mapHas_def mapValues_def Let_def)
      (simp add: pointOf_def boxTurf_def)
  have hit: "isPointInViewport boxTurf (pointOf 0 unitSquare) (bboxPolygon boxTurf (- 1, - 1, 2, 2))"
    by (simp add: unitSquare_inViewport) (simp add: boxTurf_def)
  from pointsInViewport_truthy_ids [OF run] run hit show ?thesis by simp
qed

end
